theory Spec2Isabelle
  imports Main "HOL-Library.AList"
begin

section \<open>Python values, exceptions and string operations\<close>

text \<open>
  The exceptions that the code of \<^verbatim>\<open>pg_fts/aggregates.py\<close> and its collaborators can
  raise. \<open>AssertionError\<close> is the failed \<^verbatim>\<open>assert\<close> of the constructors (the contract
  error of the specification), \<open>ValueError\<close> is a failed sequence unpacking or an incomplete
  format string (or a NaN formatted with \<^verbatim>\<open>%d\<close>), \<open>TypeError\<close> a wrong operand of
  \<^verbatim>\<open>%\<close>, \<open>OverflowError\<close> an infinite float formatted with \<^verbatim>\<open>%d\<close>, \<open>KeyError\<close>
  a missing key of a mapping, \<open>IndexError\<close> an index outside a sequence, and
  \<open>ConfigurationError\<close> the failure of the resolver's \<^verbatim>\<open>get_transform\<close>.
  \<open>FormatOutsideModel\<close> is not a Python exception: it marks a format string with a
  conversion other than \<^verbatim>\<open>%s\<close>, \<^verbatim>\<open>%(key)s\<close> and \<^verbatim>\<open>%%\<close>, which this
  development does not interpret.
\<close>

datatype error =
  AssertionError | ValueError | TypeError | OverflowError | KeyError | IndexError
  | ConfigurationError | FormatOutsideModel

text \<open>
  The scalars a caller can put into the normalization list. Python checks nothing when the
  list is stored, so the entries are not restricted to integers here either: an entry is an
  integer, a boolean, a float, a string or \<^verbatim>\<open>None\<close>. A finite float is a binary
  fraction and is given exactly by a mantissa \<open>m\<close> and an exponent \<open>e\<close>, its value
  being \<open>m * 2 ^ e\<close> (so \<open>PyFloat 3 (- 1)\<close> is \<^verbatim>\<open>1.5\<close>); the floats that are not
  finite are NaN and the two infinities.
\<close>

datatype pyval =
  PyInt int | PyBool bool | PyFloat int int | PyNaN | PyInfinity bool | PyStr string | PyNone

fun emit :: "string \<Rightarrow> error + string \<Rightarrow> error + string" where
  "emit s (Inl e) = Inl e"
| "emit s (Inr t) = Inr (s @ t)"

text \<open>\<^verbatim>\<open>sep.join(xs)\<close>: the items, with \<open>sep\<close> between neighbours.\<close>

definition str_join :: "string \<Rightarrow> string list \<Rightarrow> string" where
  "str_join sep xs = (case xs of [] \<Rightarrow> [] | x # rest \<Rightarrow> foldl (\<lambda>acc y. acc @ sep @ y) x rest)"

text \<open>Decimal digits of a natural number, most significant first.\<close>

fun decimal :: "nat \<Rightarrow> string" where
  "decimal n =
     (if n < 10 then [''0123456789'' ! n]
      else decimal (n div 10) @ [''0123456789'' ! (n mod 10)])"

text \<open>
  The integer that \<^verbatim>\<open>%d\<close> writes for the finite float \<open>m * 2 ^ e\<close>: the float cut
  off towards zero.
\<close>

definition float_truncated :: "int \<Rightarrow> int \<Rightarrow> int" where
  "float_truncated m e =
     (if 0 \<le> e then m * 2 ^ nat e
      else if 0 \<le> m then m div 2 ^ nat (- e)
      else - ((- m) div 2 ^ nat (- e)))"

text \<open>
  \<^verbatim>\<open>'%d' % i\<close> for one value \<open>i\<close>: an integer is written in decimal, with a minus sign
  when it is negative; \<^verbatim>\<open>True\<close> and \<^verbatim>\<open>False\<close> are written as \<^verbatim>\<open>1\<close> and
  \<^verbatim>\<open>0\<close>; a finite float is cut off towards zero and written as that integer; NaN
  raises \<^verbatim>\<open>ValueError\<close> and an infinity \<^verbatim>\<open>OverflowError\<close>; a string or
  \<^verbatim>\<open>None\<close> raises \<^verbatim>\<open>TypeError\<close>.
\<close>

fun format_d :: "pyval \<Rightarrow> error + string" where
  "format_d (PyInt i) = Inr (if i < 0 then CHR ''-'' # decimal (nat (- i)) else decimal (nat i))"
| "format_d (PyBool b) = Inr (if b then ''1'' else ''0'')"
| "format_d (PyFloat m e) =
     (let i = float_truncated m e
      in Inr (if i < 0 then CHR ''-'' # decimal (nat (- i)) else decimal (nat i)))"
| "format_d PyNaN = Inl ValueError"
| "format_d (PyInfinity negative) = Inl OverflowError"
| "format_d (PyStr s) = Inl TypeError"
| "format_d PyNone = Inl TypeError"

text \<open>
  A generator is consumed from the left and the first element that raises ends it.
\<close>

fun consume :: "(error + 'a) list \<Rightarrow> error + 'a list" where
  "consume [] = Inr []"
| "consume (Inl e # rs) = Inl e"
| "consume (Inr x # rs) = (case consume rs of Inl e \<Rightarrow> Inl e | Inr xs \<Rightarrow> Inr (x # xs))"

text \<open>
  \<^verbatim>\<open>template % args\<close> with a tuple of strings (or one string) on the right. The flag
  says that the previous character was a \<^verbatim>\<open>%\<close>. \<^verbatim>\<open>%s\<close> takes the next argument
  (\<^verbatim>\<open>TypeError\<close> when none is left), \<^verbatim>\<open>%%\<close> is a percent sign, a \<^verbatim>\<open>%\<close> at the
  end is a \<^verbatim>\<open>ValueError\<close>, and arguments left over at the end are a \<^verbatim>\<open>TypeError\<close>.
  Inserted arguments are not scanned again.
\<close>

fun format_args :: "bool \<Rightarrow> string list \<Rightarrow> string \<Rightarrow> error + string" where
  "format_args False args [] = (if args = [] then Inr [] else Inl TypeError)"
| "format_args False args (c # t) =
     (if c = CHR ''%'' then format_args True args t
      else emit [c] (format_args False args t))"
| "format_args True args [] = Inl ValueError"
| "format_args True args (c # t) =
     (if c = CHR ''s'' then
        (case args of
           [] \<Rightarrow> Inl TypeError
         | a # rest \<Rightarrow> emit a (format_args False rest t))
      else if c = CHR ''%'' then emit ''%'' (format_args False args t)
      else Inl FormatOutsideModel)"

definition py_format :: "string \<Rightarrow> string list \<Rightarrow> error + string" where
  "py_format template args = format_args False args template"

text \<open>
  \<^verbatim>\<open>template % mapping\<close>. The scanner is in the literal text, after a \<^verbatim>\<open>%\<close>, inside
  the parentheses of a key (with the nesting depth and the characters read so far, last
  first), or after a key, holding the value found for it. The key is looked up as soon as
  its closing parenthesis is read (\<^verbatim>\<open>KeyError\<close> when it is missing); keys of the
  mapping that the template does not name are never looked at.
\<close>

datatype fmt_state = Literal | Percent | Key nat string | Conversion string

fun format_mapping :: "fmt_state \<Rightarrow> (string \<rightharpoonup> string) \<Rightarrow> string \<Rightarrow> error + string" where
  "format_mapping Literal m [] = Inr []"
| "format_mapping Literal m (c # t) =
     (if c = CHR ''%'' then format_mapping Percent m t
      else emit [c] (format_mapping Literal m t))"
| "format_mapping Percent m [] = Inl ValueError"
| "format_mapping Percent m (c # t) =
     (if c = CHR ''('' then format_mapping (Key 0 []) m t
      else if c = CHR ''%'' then emit ''%'' (format_mapping Literal m t)
      else Inl FormatOutsideModel)"
| "format_mapping (Key depth acc) m [] = Inl ValueError"
| "format_mapping (Key depth acc) m (c # t) =
     (if c = CHR '')'' then
        (case depth of
           0 \<Rightarrow> (case m (rev acc) of
                  None \<Rightarrow> Inl KeyError
                | Some v \<Rightarrow> format_mapping (Conversion v) m t)
         | Suc d \<Rightarrow> format_mapping (Key d (c # acc)) m t)
      else if c = CHR ''('' then format_mapping (Key (Suc depth) (c # acc)) m t
      else format_mapping (Key depth (c # acc)) m t)"
| "format_mapping (Conversion v) m [] = Inl ValueError"
| "format_mapping (Conversion v) m (c # t) =
     (if c = CHR ''s'' then emit v (format_mapping Literal m t)
      else Inl FormatOutsideModel)"

definition py_format_mapping :: "string \<Rightarrow> (string \<rightharpoonup> string) \<Rightarrow> error + string" where
  "py_format_mapping template m = format_mapping Literal m template"

section \<open>The collaborators\<close>

text \<open>
  Modelled from the spec: the column resolver (the \<^verbatim>\<open>source\<close> argument, a
  \<^verbatim>\<open>TSVectorField\<close> of the module \<^verbatim>\<open>pg_fts.fields\<close>). Section 6 of
  the specification lists what it offers: \<^verbatim>\<open>getTransform(name) -> ok | fails\<close>,
  \<^verbatim>\<open>getLookup(name) -> PredicateTemplate\<close>, \<^verbatim>\<open>prepareParam(lookupName, value)\<close> and
  the default dictionary. Each method is a function that may raise; of the lookup that
  \<^verbatim>\<open>get_lookup\<close> returns only its \<^verbatim>\<open>lookup_sql\<close> template is used. \<open>'v\<close> is the type
  of the search term and \<open>'p\<close> the type of the prepared driver value.
\<close>

record ('v, 'p) resolver =
  get_transform :: "string \<Rightarrow> error + unit"
  get_lookup :: "string \<Rightarrow> error + string"
  db_prep_lookup :: "string \<Rightarrow> 'v \<Rightarrow> error + 'p"
  default_dictionary :: string

section \<open>AggregateRegister\<close>

datatype field_type = FloatField

text \<open>
  The keyword arguments \<^verbatim>\<open>**extra\<close> of \<^verbatim>\<open>AggregateRegister\<close>: the dictionary built
  in \<^verbatim>\<open>add_to_query\<close>, the only place that constructs one, with the keys
  \<^verbatim>\<open>params\<close>, \<^verbatim>\<open>dictionary\<close> and \<^verbatim>\<open>normalization_arr\<close>.
\<close>

record 'p extra_dict =
  kw_params :: 'p
  kw_dictionary :: string
  kw_normalization_arr :: "pyval list"

record ('v, 'p) aggregate_register =
  reg_col :: "string list"
  reg_source :: "('v, 'p) resolver option"
  reg_sql_function :: string
  reg_extra :: "'p extra_dict"
  reg_field :: field_type
  reg_params :: 'p
  reg_normalization :: "pyval list"

definition sql_template :: string where
  "sql_template =
     ''%(function)s(%(field_name)s, to_tsquery('%(dictionary)s', %(place)s)%(normalization)s)''"

definition AggregateRegister_init ::
  "string list \<Rightarrow> ('v, 'p) resolver option \<Rightarrow> string \<Rightarrow> 'p extra_dict \<Rightarrow> ('v, 'p) aggregate_register" where
  "AggregateRegister_init col source sql_function extra =
     \<lparr> reg_col = col, reg_source = source, reg_sql_function = sql_function,
       reg_extra = extra, reg_field = FloatField,
       reg_params = kw_params extra,
       reg_normalization = kw_normalization_arr extra \<rparr>"

text \<open>
  The local \<^verbatim>\<open>normalization_params\<close> of \<^verbatim>\<open>as_sql\<close>: empty for an empty list,
  otherwise a comma, a space and the flags, each formatted with \<^verbatim>\<open>%d\<close>, joined by
  \<^verbatim>\<open>|\<close>.
\<close>

definition normalization_params :: "pyval list \<Rightarrow> error + string" where
  "normalization_params normalization =
     (if normalization \<noteq> [] then
        (case consume (map format_d normalization) of
           Inl e \<Rightarrow> Inl e
         | Inr ds \<Rightarrow> Inr ('', '' @ str_join ''|'' ds))
      else Inr [])"

text \<open>
  The mapping handed to the template: the four entries written in \<^verbatim>\<open>as_sql\<close>, updated
  with \<^verbatim>\<open>self.extra\<close>. Of the three keys of \<^verbatim>\<open>self.extra\<close> the template names only
  \<^verbatim>\<open>dictionary\<close>; \<^verbatim>\<open>params\<close> and \<^verbatim>\<open>normalization_arr\<close> are never converted to
  text and are left out of the mapping.
\<close>

definition substitutions ::
  "('v, 'p) aggregate_register \<Rightarrow> (string \<Rightarrow> string) \<Rightarrow> string \<Rightarrow> (string \<times> string) list" where
  "substitutions self qn normalization_text =
     AList.update ''dictionary'' (kw_dictionary (reg_extra self))
       [(''field_name'', str_join ''.'' (map qn (reg_col self))),
        (''function'', reg_sql_function self),
        (''place'', ''%s''),
        (''normalization'', normalization_text)]"

text \<open>
  \<^verbatim>\<open>as_sql(self, qn, connection)\<close>; \<open>qn\<close> is the quoting function of the SQL compiler
  and the connection is not used.
\<close>

definition as_sql ::
  "('v, 'p) aggregate_register \<Rightarrow> (string \<Rightarrow> string) \<Rightarrow> error + (string \<times> 'p list)" where
  "as_sql self qn =
     (case normalization_params (reg_normalization self) of
        Inl e \<Rightarrow> Inl e
      | Inr normalization_text \<Rightarrow>
          (case py_format_mapping sql_template (map_of (substitutions self qn normalization_text)) of
             Inl e \<Rightarrow> Inl e
           | Inr sql \<Rightarrow> Inr (sql, [reg_params self])))"

section \<open>The rank aggregates\<close>

datatype variant = FTSRank | FTSRankCd | FTSRankDictionay | FTSRankCdDictionary

text \<open>
  The class attribute \<^verbatim>\<open>sql_function\<close>. \<^verbatim>\<open>FTSRankDictionay\<close> does not set it and
  inherits it from \<^verbatim>\<open>FTSRank\<close>. (The attribute \<^verbatim>\<open>name\<close> is read only by
  \<^verbatim>\<open>_default_alias\<close>, which is not part of this development.)
\<close>

fun sql_function :: "variant \<Rightarrow> string" where
  "sql_function FTSRank = ''ts_rank''"
| "sql_function FTSRankCd = ''ts_rank_cd''"
| "sql_function FTSRankDictionay = ''ts_rank''"
| "sql_function FTSRankCdDictionary = ''ts_rank_cd''"

text \<open>
  \<^verbatim>\<open>self.extra\<close> holds the keyword arguments of the constructor (the lookup path with
  the search term) until \<^verbatim>\<open>add_to_query\<close> replaces it by the dictionary it passes on
  to \<^verbatim>\<open>AggregateRegister\<close>.
\<close>

datatype ('v, 'p) spec_extra = Keywords "(string \<times> 'v) list" | Attached "'p extra_dict"

record ('v, 'p) aggregate =
  cls :: variant
  lookup :: string
  extra :: "('v, 'p) spec_extra"
  rhs :: 'v
  dictionary :: string
  srt_lookup :: string
  normalization :: "pyval list"

text \<open>Django's \<^verbatim>\<open>LOOKUP_SEP\<close>.\<close>

definition LOOKUP_SEP :: string where
  "LOOKUP_SEP = ''__''"

text \<open>
  \<^verbatim>\<open>s.split(LOOKUP_SEP)\<close>: the text is cut at every double underscore, found from the
  left and not overlapping. The first argument holds the current segment, last character
  first. The result is never empty.
\<close>

fun split_LOOKUP_SEP :: "string \<Rightarrow> string \<Rightarrow> string list" where
  "split_LOOKUP_SEP acc [] = [rev acc]"
| "split_LOOKUP_SEP acc [c] = [rev (c # acc)]"
| "split_LOOKUP_SEP acc (c # d # t) =
     (if c = CHR ''_'' \<and> d = CHR ''_'' then rev acc # split_LOOKUP_SEP [] t
      else split_LOOKUP_SEP (c # acc) (d # t))"

text \<open>
  The constructors take keyword arguments only. \<^verbatim>\<open>extra.pop('normalization', [])\<close>
  is the first argument here (\<open>None\<close> when the caller gave no \<^verbatim>\<open>normalization\<close>)
  and the remaining keyword arguments, in the order of \<^verbatim>\<open>extra.items()\<close>, are the
  second. The assertion is the first thing that can fail.
\<close>

definition FTSRank_init ::
  "variant \<Rightarrow> pyval list option \<Rightarrow> (string \<times> 'v) list \<Rightarrow> error + ('v, 'p) aggregate" where
  "FTSRank_init c normalization_kw kwargs =
     (let normalization' = (case normalization_kw of None \<Rightarrow> [] | Some ns \<Rightarrow> ns) in
      if length kwargs \<noteq> 1 then Inl AssertionError
      else
        (case kwargs of
           [] \<Rightarrow> Inl IndexError
         | params # _ \<Rightarrow>
            (case rev (split_LOOKUP_SEP [] (fst params)) of
               [] \<Rightarrow> Inl IndexError
             | l # front \<Rightarrow>
                 Inr \<lparr> cls = c, lookup = str_join LOOKUP_SEP (rev front),
                       extra = Keywords kwargs, rhs = snd params, dictionary = [],
                       srt_lookup = l, normalization = normalization' \<rparr>)))"

text \<open>
  \<^verbatim>\<open>self.dictionary, self.srt_lookup = lookups[-2:]\<close> needs two segments: with one,
  the unpacking raises \<^verbatim>\<open>ValueError\<close>.
\<close>

definition FTSRankDictionay_init ::
  "variant \<Rightarrow> pyval list option \<Rightarrow> (string \<times> 'v) list \<Rightarrow> error + ('v, 'p) aggregate" where
  "FTSRankDictionay_init c normalization_kw kwargs =
     (let normalization' = (case normalization_kw of None \<Rightarrow> [] | Some ns \<Rightarrow> ns) in
      if length kwargs \<noteq> 1 then Inl AssertionError
      else
        (case kwargs of
           [] \<Rightarrow> Inl IndexError
         | params # _ \<Rightarrow>
            (case rev (split_LOOKUP_SEP [] (fst params)) of
               l # d # front \<Rightarrow>
                 Inr \<lparr> cls = c, lookup = str_join LOOKUP_SEP (rev front),
                       extra = Keywords kwargs, rhs = snd params, dictionary = d,
                       srt_lookup = l, normalization = normalization' \<rparr>
             | _ \<Rightarrow> Inl ValueError)))"

text \<open>Calling a class runs the \<^verbatim>\<open>__init__\<close> it defines or inherits.\<close>

fun construct ::
  "variant \<Rightarrow> pyval list option \<Rightarrow> (string \<times> 'v) list \<Rightarrow> error + ('v, 'p) aggregate" where
  "construct FTSRank n kwargs = FTSRank_init FTSRank n kwargs"
| "construct FTSRankCd n kwargs = FTSRank_init FTSRankCd n kwargs"
| "construct FTSRankDictionay n kwargs = FTSRankDictionay_init FTSRankDictionay n kwargs"
| "construct FTSRankCdDictionary n kwargs = FTSRankDictionay_init FTSRankCdDictionary n kwargs"

section \<open>The query and the attachment\<close>

text \<open>
  Modelled from the spec: the query representation (the \<^verbatim>\<open>Query\<close> object of the
  host framework). Section 1 of the specification asks for three things: a list
  of WHERE fragments with their bound parameters, the computed expressions keyed by alias
  (an ordered mapping, where a second assignment to an alias overwrites the first), and the
  GROUP BY columns. A column is the tuple of its identifier parts.
\<close>

record ('v, 'p) query =
  where_nodes :: "(string list \<times> 'p list) list"
  aggregates :: "(string \<times> ('v, 'p) aggregate_register) list"
  group_by :: "string list list"

text \<open>
  Modelled from the spec: \<^verbatim>\<open>query.add_extra\<close> with only \<^verbatim>\<open>where\<close> and
  \<^verbatim>\<open>params\<close> given adds the fragments, with the parameters bound to them, to the WHERE
  list (\<^verbatim>\<open>query.addFilter(sql, params)\<close> in section 6).
\<close>

definition add_extra ::
  "('v, 'p) query \<Rightarrow> string list \<Rightarrow> 'p list \<Rightarrow> ('v, 'p) query" where
  "add_extra query where_sql params =
     query\<lparr>where_nodes := where_nodes query @ [(where_sql, params)]\<rparr>"

text \<open>\<^verbatim>\<open>'.'.join('"%s"' % c for c in col)\<close>\<close>

definition quoted_col :: "string list \<Rightarrow> string" where
  "quoted_col col = str_join ''.'' (map (\<lambda>c. [CHR 0x22] @ c @ [CHR 0x22]) col)"

text \<open>
  \<^verbatim>\<open>add_to_query(self, query, alias, col, source)\<close>. Both \<^verbatim>\<open>self\<close> and the query are
  mutable objects, and an exception does not undo what was assigned before it: the result
  is the outcome together with the aggregate and the query as they are when the call
  ends. The steps are in the order of the source; \<^verbatim>\<open>fts_query % ("%s")\<close> is an
  argument of \<^verbatim>\<open>add_extra\<close> and is evaluated before the call. The parameter
  \<^verbatim>\<open>is_summary\<close> is not read.
\<close>

definition add_to_query ::
  "('v, 'p) aggregate \<Rightarrow> ('v, 'p) query \<Rightarrow> string \<Rightarrow> string list \<Rightarrow> ('v, 'p) resolver
     \<Rightarrow> (error + unit) \<times> ('v, 'p) aggregate \<times> ('v, 'p) query" where
  "add_to_query self query alias col source =
     (case (if dictionary self \<noteq> [] then
              (case get_transform source (dictionary self) of
                 Inl e \<Rightarrow> Inl e
               | Inr _ \<Rightarrow> Inr self)
            else Inr (self\<lparr>dictionary := default_dictionary source\<rparr>)) of
        Inl e \<Rightarrow> (Inl e, self, query)
      | Inr self1 \<Rightarrow>
         (case get_lookup source (srt_lookup self1) of
            Inl e \<Rightarrow> (Inl e, self1, query)
          | Inr lookup_sql \<Rightarrow>
             (case py_format lookup_sql [quoted_col col, dictionary self1, ''%s''] of
                Inl e \<Rightarrow> (Inl e, self1, query)
              | Inr fts_query \<Rightarrow>
                 (case db_prep_lookup source (srt_lookup self1) (rhs self1) of
                    Inl e \<Rightarrow> (Inl e, self1, query)
                  | Inr params \<Rightarrow>
                     (let extra' = \<lparr> kw_params = params, kw_dictionary = dictionary self1,
                                     kw_normalization_arr = normalization self1 \<rparr>;
                          self2 = self1\<lparr>extra := Attached extra'\<rparr>
                      in
                        (case py_format fts_query [''%s''] of
                           Inl e \<Rightarrow> (Inl e, self2, query)
                         | Inr where_sql \<Rightarrow>
                            (let query1 = add_extra query [where_sql] [params];
                                 aggregate = AggregateRegister_init col (Some source)
                                               (sql_function (cls self2)) extra';
                                 query2 = query1\<lparr>aggregates :=
                                            AList.update alias aggregate (aggregates query1)\<rparr>;
                                 query3 = (if col \<in> set (group_by query2) then query2
                                           else query2\<lparr>group_by := group_by query2 @ [col]\<rparr>)
                             in (Inr (), self2, query3))))))))"

section \<open>Reference notions of the specification\<close>

text \<open>
  The items of a list written one after the other with a separator between neighbours, as
  the specification writes \<open>n1|n2|...|nk\<close> and \<open>c1.c2\<close>.
\<close>

fun separated :: "string \<Rightarrow> string list \<Rightarrow> string" where
  "separated sep [] = []"
| "separated sep [x] = x"
| "separated sep (x # y # ys) = x @ sep @ separated sep (y # ys)"



text \<open>The entries that are integers proper.\<close>

fun is_int :: "pyval \<Rightarrow> bool" where
  "is_int (PyInt i) = True"
| "is_int (PyBool b) = False"
| "is_int (PyFloat m e) = False"
| "is_int PyNaN = False"
| "is_int (PyInfinity negative) = False"
| "is_int (PyStr s) = False"
| "is_int PyNone = False"

text \<open>
  The text of one ranking call: the function name, the qualified column, the dictionary
  inside \<^verbatim>\<open>to_tsquery\<close> with the placeholder, and the normalization suffix.
\<close>

definition rank_call :: "string \<Rightarrow> string \<Rightarrow> string \<Rightarrow> string \<Rightarrow> string" where
  "rank_call function field_name dictionary_name suffix =
     function @ ''('' @ field_name @ '', to_tsquery('' @ [CHR 0x27] @ dictionary_name
       @ [CHR 0x27] @ '', %s)'' @ suffix @ '')''"

text \<open>A lookup path holds the separator when two neighbouring characters are underscores.\<close>

fun contains_LOOKUP_SEP :: "string \<Rightarrow> bool" where
  "contains_LOOKUP_SEP [] = False"
| "contains_LOOKUP_SEP [c] = False"
| "contains_LOOKUP_SEP (c # d # t) =
     ((c = CHR ''_'' \<and> d = CHR ''_'') \<or> contains_LOOKUP_SEP (d # t))"

text \<open>The variants that read the dictionary from the lookup path.\<close>

fun dictionary_aware :: "variant \<Rightarrow> bool" where
  "dictionary_aware FTSRank = False"
| "dictionary_aware FTSRankCd = False"
| "dictionary_aware FTSRankDictionay = True"
| "dictionary_aware FTSRankCdDictionary = True"

text \<open>
  Step 1 of the attachment protocol (section 4.2): the dictionary of the aggregate when it
  has one, otherwise the default dictionary of the resolver.
\<close>

definition resolved_dictionary :: "('v, 'p) aggregate \<Rightarrow> ('v, 'p) resolver \<Rightarrow> string" where
  "resolved_dictionary self source =
     (if dictionary self \<noteq> [] then dictionary self else default_dictionary source)"

section \<open>A worked example\<close>

text \<open>
  A resolver with the default dictionary \<^verbatim>\<open>english\<close> that knows the transforms
  \<^verbatim>\<open>english\<close> and \<^verbatim>\<open>portuguese\<close> and the lookup \<^verbatim>\<open>search\<close>; one that has
  the default \<^verbatim>\<open>portuguese\<close> and knows no other transform; and the first one with the
  default changed to \<^verbatim>\<open>portuguese\<close>. The prepared value of a term is the one-element
  list holding it.
\<close>

definition example_source :: "(string, string list) resolver" where
  "example_source =
     \<lparr> get_transform = (\<lambda>key. if key = ''english'' \<or> key = ''portuguese'' then Inr ()
                               else Inl ConfigurationError),
       get_lookup = (\<lambda>key. if key = ''search'' then Inr ''%s @@ to_tsquery('%s', %s)''
                            else Inl KeyError),
       db_prep_lookup = (\<lambda>lookup_type v. Inr [v]),
       default_dictionary = ''english'' \<rparr>"

definition portuguese_source :: "(string, string list) resolver" where
  "portuguese_source =
     \<lparr> get_transform = (\<lambda>key. if key = ''portuguese'' then Inr () else Inl ConfigurationError),
       get_lookup = (\<lambda>key. if key = ''search'' then Inr ''%s @@ to_tsquery('%s', %s)''
                            else Inl KeyError),
       db_prep_lookup = (\<lambda>lookup_type v. Inr [v]),
       default_dictionary = ''portuguese'' \<rparr>"

definition relabelled_source :: "(string, string list) resolver" where
  "relabelled_source = example_source\<lparr>default_dictionary := ''portuguese''\<rparr>"

definition example_query :: "(string, string list) query" where
  "example_query = \<lparr> where_nodes = [], aggregates = [], group_by = [[''article'', ''id'']] \<rparr>"

definition example_col :: "string list" where
  "example_col = [''article'', ''body'']"

text \<open>
  \<^verbatim>\<open>FTSRank(body__search='Hello world', normalization=[1, 2])\<close>,
  \<^verbatim>\<open>FTSRankDictionay(body__klingon__search='Hello world')\<close> and
  \<^verbatim>\<open>FTSRankCdDictionary(body__portuguese__search='Bom dia')\<close>.
\<close>

definition example_rank :: "(string, string list) aggregate" where
  "example_rank =
     \<lparr> cls = FTSRank, lookup = ''body'',
       extra = Keywords [(''body__search'', ''Hello world'')], rhs = ''Hello world'',
       dictionary = [], srt_lookup = ''search'', normalization = [PyInt 1, PyInt 2] \<rparr>"

definition example_rank_klingon :: "(string, string list) aggregate" where
  "example_rank_klingon =
     \<lparr> cls = FTSRankDictionay, lookup = ''body'',
       extra = Keywords [(''body__klingon__search'', ''Hello world'')], rhs = ''Hello world'',
       dictionary = ''klingon'', srt_lookup = ''search'', normalization = [] \<rparr>"

definition example_rank_pt :: "(string, string list) aggregate" where
  "example_rank_pt =
     \<lparr> cls = FTSRankCdDictionary, lookup = ''body'',
       extra = Keywords [(''body__portuguese__search'', ''Bom dia'')], rhs = ''Bom dia'',
       dictionary = ''portuguese'', srt_lookup = ''search'', normalization = [] \<rparr>"

text \<open>The aggregate and the query after \<open>example_rank\<close> is attached under \<^verbatim>\<open>rank\<close>.\<close>

definition example_extra :: "string list extra_dict" where
  "example_extra =
     \<lparr> kw_params = [''Hello world''], kw_dictionary = ''english'',
       kw_normalization_arr = [PyInt 1, PyInt 2] \<rparr>"

definition example_where :: "string list \<times> string list list" where
  "example_where =
     ([[CHR 0x22] @ ''article'' @ [CHR 0x22] @ ''.'' @ [CHR 0x22] @ ''body'' @ [CHR 0x22]
         @ '' @@ to_tsquery('english', %s)''],
      [[''Hello world'']])"

definition example_rank_attached :: "(string, string list) aggregate" where
  "example_rank_attached =
     example_rank\<lparr>dictionary := ''english'', extra := Attached example_extra\<rparr>"

definition example_query_attached :: "(string, string list) query" where
  "example_query_attached =
     \<lparr> where_nodes = [example_where],
       aggregates = [(''rank'', AggregateRegister_init example_col (Some example_source)
                                 ''ts_rank'' example_extra)],
       group_by = [[''article'', ''id''], example_col] \<rparr>"

section \<open>Facts about the string operations\<close>

lemma separated_append_head: "separated sep ((a @ b) # rest) = a @ separated sep (b # rest)"
  by (cases rest) simp_all

lemma foldl_separated: "foldl (\<lambda>acc y. acc @ sep @ y) x rest = separated sep (x # rest)"
proof (induction rest arbitrary: x)
  case Nil
  show ?case by simp
next
  case (Cons y ys)
  have "foldl (\<lambda>acc y. acc @ sep @ y) x (y # ys) = separated sep ((x @ sep @ y) # ys)"
    using Cons.IH [of "x @ sep @ y"] by simp
  also have "\<dots> = x @ sep @ separated sep (y # ys)"
    using separated_append_head [of sep x "sep @ y" ys] separated_append_head [of sep sep y ys]
    by simp
  finally show ?case by simp
qed

lemma str_join_separated: "str_join sep xs = separated sep xs"
  by (cases xs) (simp_all add: str_join_def foldl_separated)






text \<open>
  What \<^verbatim>\<open>%d\<close> does with entries that are not integers: \<^verbatim>\<open>[1.5, True, 2.75]\<close>
  renders as \<^verbatim>\<open>, 1|1|2\<close> and \<^verbatim>\<open>[-1.5, 3e0, False]\<close> as \<^verbatim>\<open>, -1|3|0\<close>, while a
  string, \<^verbatim>\<open>None\<close>, NaN and an infinity raise.
\<close>

lemma normalization_params_examples:
  "normalization_params [PyFloat 3 (- 1), PyBool True, PyFloat 11 (- 2)] = Inr '', 1|1|2''"
  "normalization_params [PyFloat (- 3) (- 1), PyFloat 3 0, PyBool False] = Inr '', -1|3|0''"
  "normalization_params [PyInt 1, PyStr ''high''] = Inl TypeError"
  "normalization_params [PyNone] = Inl TypeError"
  "normalization_params [PyInt 1, PyNaN, PyStr ''high''] = Inl ValueError"
  "normalization_params [PyInfinity False] = Inl OverflowError"
  by (simp_all add: normalization_params_def str_join_def float_truncated_def)

section \<open>Rendering the rank expression\<close>

lemma sql_template_rendered:
  "py_format_mapping sql_template (map_of (substitutions self qn suffix)) =
     Inr (rank_call (reg_sql_function self) (str_join ''.'' (map qn (reg_col self)))
            (kw_dictionary (reg_extra self)) suffix)"
  by (simp add: py_format_mapping_def sql_template_def substitutions_def rank_call_def)

lemma as_sql_rendered:
  assumes "normalization_params (reg_normalization self) = Inr suffix"
  shows "as_sql self qn =
           Inr (rank_call (reg_sql_function self) (separated ''.'' (map qn (reg_col self)))
                  (kw_dictionary (reg_extra self)) suffix,
                [reg_params self])"
  using assms by (simp add: as_sql_def sql_template_rendered str_join_separated)

lemma consume_ints: "list_all is_int xs \<Longrightarrow> \<exists>ds. consume (map format_d xs) = Inr ds"
proof (induction xs)
  case Nil
  show ?case by simp
next
  case (Cons x xs)
  then obtain ds where "consume (map format_d xs) = Inr ds" by auto
  moreover from Cons.prems obtain i where "x = PyInt i" by (cases x) auto
  ultimately show ?case by simp
qed

lemma normalization_params_ints:
  assumes "list_all is_int ns"
  shows "\<exists>suffix. normalization_params ns = Inr suffix"
  using consume_ints [OF assms] by (auto simp: normalization_params_def)

lemma registered_expression:
  assumes "normalization_params ns = Inr suffix"
  shows "as_sql (AggregateRegister_init col source f
                   \<lparr> kw_params = p, kw_dictionary = d, kw_normalization_arr = ns \<rparr>) qn =
           Inr (rank_call f (separated ''.'' (map qn col)) d suffix, [p])"
  using as_sql_rendered [of "AggregateRegister_init col source f
      \<lparr> kw_params = p, kw_dictionary = d, kw_normalization_arr = ns \<rparr>" suffix qn] assms
  by (simp add: AggregateRegister_init_def)

text \<open>
  C1. Rendering an \<^verbatim>\<open>AggregateRegister\<close> with function name \<open>f\<close>, column parts
  \<open>col\<close>, predicate parameters \<open>p\<close>, dictionary \<open>d\<close> and a list \<open>ns\<close> of integer
  normalization flags returns: the result is the pair of the text
  \<^verbatim>\<open>f(<qn c1>.<...>.<qn cn>, to_tsquery('d', %s)<suffix>)\<close>, where the suffix is the
  rendering of \<open>ns\<close>, and the one-element list \<open>[p]\<close>, so that the whole of \<open>p\<close> is
  the single bound value.
\<close>

theorem as_sql_rank_expression:
  assumes "list_all is_int ns"
  shows "\<exists>suffix. normalization_params ns = Inr suffix \<and>
           as_sql (AggregateRegister_init col source f
                     \<lparr> kw_params = p, kw_dictionary = d, kw_normalization_arr = ns \<rparr>) qn =
             Inr (f @ ''('' @ separated ''.'' (map qn col) @ '', to_tsquery('' @ [CHR 0x27] @ d
                    @ [CHR 0x27] @ '', %s)'' @ suffix @ '')'',
                  [p])"
proof -
  from normalization_params_ints [OF assms] obtain suffix
    where suffix: "normalization_params ns = Inr suffix" ..
  from registered_expression [OF suffix, of col source f p d qn]
  have "as_sql (AggregateRegister_init col source f
                  \<lparr> kw_params = p, kw_dictionary = d, kw_normalization_arr = ns \<rparr>) qn =
          Inr (f @ ''('' @ separated ''.'' (map qn col) @ '', to_tsquery('' @ [CHR 0x27] @ d
                 @ [CHR 0x27] @ '', %s)'' @ suffix @ '')'',
               [p])"
    by (simp add: rank_call_def)
  with suffix show ?thesis by blast
qed

theorem as_sql_rank_expression_witness:
  "list_all is_int [PyInt 1, PyInt 2] \<and>
   as_sql (AggregateRegister_init [''article'', ''body'']
             (None :: (string, string list) resolver option) ''ts_rank''
             \<lparr> kw_params = [''Hello & world''], kw_dictionary = ''english'',
               kw_normalization_arr = [PyInt 1, PyInt 2] \<rparr>)
          (\<lambda>c. [CHR 0x22] @ c @ [CHR 0x22]) =
     Inr (''ts_rank('' @ [CHR 0x22] @ ''article'' @ [CHR 0x22] @ ''.'' @ [CHR 0x22] @ ''body''
            @ [CHR 0x22] @ '', to_tsquery('english', %s), 1|2)'',
          [[''Hello & world'']])"
proof -
  have ints: "list_all is_int [PyInt 1, PyInt 2]"
    by simp
  have rendered: "normalization_params [PyInt 1, PyInt 2] = Inr '', 1|2''"
    by (simp add: normalization_params_def str_join_def)
  from as_sql_rank_expression [OF ints, of "[''article'', ''body'']"
      "None :: (string, string list) resolver option" "''ts_rank''"
      "[''Hello & world'']" "''english''" "\<lambda>c. [CHR 0x22] @ c @ [CHR 0x22]"]
  obtain suffix where
    "normalization_params [PyInt 1, PyInt 2] = Inr suffix" and
    "as_sql (AggregateRegister_init [''article'', ''body'']
             (None :: (string, string list) resolver option) ''ts_rank''
             \<lparr> kw_params = [''Hello & world''], kw_dictionary = ''english'',
               kw_normalization_arr = [PyInt 1, PyInt 2] \<rparr>)
          (\<lambda>c. [CHR 0x22] @ c @ [CHR 0x22]) =
       Inr (''ts_rank'' @ ''('' @ separated ''.''
              (map (\<lambda>c. [CHR 0x22] @ c @ [CHR 0x22]) [''article'', ''body''])
              @ '', to_tsquery('' @ [CHR 0x27] @ ''english'' @ [CHR 0x27] @ '', %s)'' @ suffix
              @ '')'',
            [[''Hello & world'']])"
    by blast
  with rendered ints show ?thesis by simp
qed



section \<open>Construction\<close>

lemma split_nonempty: "split_LOOKUP_SEP acc s \<noteq> []"
  by (induction acc s rule: split_LOOKUP_SEP.induct) auto

lemma split_without_sep: "\<not> contains_LOOKUP_SEP s \<Longrightarrow> split_LOOKUP_SEP acc s = [rev acc @ s]"
  by (induction acc s rule: split_LOOKUP_SEP.induct) auto

lemma split_with_sep: "contains_LOOKUP_SEP s \<Longrightarrow> 2 \<le> length (split_LOOKUP_SEP acc s)"
proof (induction acc s rule: split_LOOKUP_SEP.induct)
  case (3 acc c d t)
  show ?case
  proof (cases "c = CHR ''_'' \<and> d = CHR ''_''")
    case True
    then show ?thesis
      using split_nonempty [of "[]" t] by (cases "split_LOOKUP_SEP [] t") auto
  next
    case False
    then show ?thesis using 3 by auto
  qed
qed simp_all

lemma FTSRank_init_arity:
  "length kwargs \<noteq> 1 \<Longrightarrow> FTSRank_init c n kwargs = Inl AssertionError"
  by (simp add: FTSRank_init_def)

lemma FTSRankDictionay_init_arity:
  "length kwargs \<noteq> 1 \<Longrightarrow> FTSRankDictionay_init c n kwargs = Inl AssertionError"
  by (simp add: FTSRankDictionay_init_def)

lemma FTSRank_init_one:
  "FTSRank_init c n [(path, term)] =
     Inr \<lparr> cls = c, lookup = str_join LOOKUP_SEP (butlast (split_LOOKUP_SEP [] path)),
           extra = Keywords [(path, term)], rhs = term, dictionary = [],
           srt_lookup = last (split_LOOKUP_SEP [] path),
           normalization = (case n of None \<Rightarrow> [] | Some ns \<Rightarrow> ns) \<rparr>"
proof -
  obtain l front where r: "rev (split_LOOKUP_SEP [] path) = l # front"
    using split_nonempty [of "[]" path] by (cases "rev (split_LOOKUP_SEP [] path)") auto
  then have "split_LOOKUP_SEP [] path = rev front @ [l]"
    by (metis rev_rev_ident rev.simps(2))
  then show ?thesis using r by (simp add: FTSRank_init_def)
qed

lemma FTSRankDictionay_init_short:
  assumes "\<not> contains_LOOKUP_SEP path"
  shows "FTSRankDictionay_init c n [(path, term)] = Inl ValueError"
  using split_without_sep [OF assms, of "[]"] by (simp add: FTSRankDictionay_init_def)

lemma FTSRankDictionay_init_long:
  assumes "contains_LOOKUP_SEP path"
  shows "\<exists>front d l. split_LOOKUP_SEP [] path = front @ [d, l] \<and>
     FTSRankDictionay_init c n [(path, term)] =
     Inr \<lparr> cls = c, lookup = str_join LOOKUP_SEP front,
           extra = Keywords [(path, term)], rhs = term, dictionary = d,
           srt_lookup = l,
           normalization = (case n of None \<Rightarrow> [] | Some ns \<Rightarrow> ns) \<rparr>"
proof -
  have "2 \<le> length (rev (split_LOOKUP_SEP [] path))"
    using split_with_sep [OF assms, of "[]"] by simp
  then obtain l d front where r: "rev (split_LOOKUP_SEP [] path) = l # d # front"
    by (cases "rev (split_LOOKUP_SEP [] path)"; cases "tl (rev (split_LOOKUP_SEP [] path))") auto
  then have "split_LOOKUP_SEP [] path = rev front @ [d, l]"
    by (metis rev_rev_ident rev.simps(2) append_Cons append_Nil append_assoc)
  then show ?thesis using r by (simp add: FTSRankDictionay_init_def)
qed

lemma FTSRankDictionay_init_succeeds:
  assumes "contains_LOOKUP_SEP path"
  shows "\<exists>self. FTSRankDictionay_init c n [(path, term)] = Inr self"
  using FTSRankDictionay_init_long [OF assms, of c n "term"] by auto

lemma construct_ignores_normalization:
  "(construct v n kwargs :: error + ('v, 'p) aggregate) =
     map_sum id (\<lambda>self. self\<lparr>normalization := (case n of None \<Rightarrow> [] | Some ns \<Rightarrow> ns)\<rparr>)
       (construct v None kwargs)"
  by (cases v)
    (auto simp: FTSRank_init_def FTSRankDictionay_init_def Let_def split: list.splits)

text \<open>
  C4, as amended. Every variant constructed with no keyword argument besides
  \<^verbatim>\<open>normalization\<close>, or with two or more, fails with the \<^verbatim>\<open>AssertionError\<close> of its
  \<^verbatim>\<open>assert\<close>. With exactly one keyword argument \<^verbatim>\<open>FTSRank\<close> and \<^verbatim>\<open>FTSRankCd\<close>
  always succeed, and the dictionary-aware variants succeed exactly when the name of the
  argument holds the separator \<^verbatim>\<open>__\<close>; without it they fail with the
  \<^verbatim>\<open>ValueError\<close> of the unpacking.
\<close>

theorem keyword_argument_count:
  "(length kwargs \<noteq> 1 \<longrightarrow>
      (construct v n kwargs :: error + ('v, 'p) aggregate) = Inl AssertionError) \<and>
   ((\<exists>self :: ('v, 'p) aggregate. construct v n [(path, term)] = Inr self) \<longleftrightarrow>
      (dictionary_aware v \<longrightarrow> contains_LOOKUP_SEP path)) \<and>
   (dictionary_aware v \<and> \<not> contains_LOOKUP_SEP path \<longrightarrow>
      (construct v n [(path, term)] :: error + ('v, 'p) aggregate) = Inl ValueError)"
proof (cases v)
  case FTSRank
  then show ?thesis by (simp add: FTSRank_init_arity FTSRank_init_one)
next
  case FTSRankCd
  then show ?thesis by (simp add: FTSRank_init_arity FTSRank_init_one)
next
  case FTSRankDictionay
  then show ?thesis
    by (cases "contains_LOOKUP_SEP path")
      (simp_all add: FTSRankDictionay_init_arity FTSRankDictionay_init_short
        FTSRankDictionay_init_succeeds)
next
  case FTSRankCdDictionary
  then show ?thesis
    by (cases "contains_LOOKUP_SEP path")
      (simp_all add: FTSRankDictionay_init_arity FTSRankDictionay_init_short
        FTSRankDictionay_init_succeeds)
qed

theorem keyword_argument_count_witness:
  "length ([] :: (string \<times> string) list) \<noteq> 1 \<and>
   (construct FTSRank None [] :: error + (string, string list) aggregate) = Inl AssertionError \<and>
   length [(''body__search'', ''Hello''), (''title__search'', ''world'')] \<noteq> 1 \<and>
   (construct FTSRankCdDictionary (Some [PyInt 1])
      [(''body__search'', ''Hello''), (''title__search'', ''world'')]
      :: error + (string, string list) aggregate) = Inl AssertionError \<and>
   (\<exists>self :: (string, string list) aggregate.
      construct FTSRankCd None [(''search'', ''Hello'')] = Inr self) \<and>
   dictionary_aware FTSRankDictionay \<and> contains_LOOKUP_SEP ''body__english__search'' \<and>
   (\<exists>self :: (string, string list) aggregate.
      construct FTSRankDictionay None [(''body__english__search'', ''Hello'')] = Inr self) \<and>
   \<not> contains_LOOKUP_SEP ''search'' \<and>
   (construct FTSRankDictionay None [(''search'', ''Hello'')]
      :: error + (string, string list) aggregate) = Inl ValueError"
  using
    keyword_argument_count [where ?'p = "string list",
      of "[] :: (string \<times> string) list" FTSRank None]
    keyword_argument_count [where ?'p = "string list",
      of "[(''body__search'', ''Hello''), (''title__search'', ''world'')]" FTSRankCdDictionary
        "Some [PyInt 1]"]
    keyword_argument_count [where ?'p = "string list",
      of "[] :: (string \<times> string) list" FTSRankCd None "''search''" "''Hello''"]
    keyword_argument_count [where ?'p = "string list",
      of "[] :: (string \<times> string) list" FTSRankDictionay None "''body__english__search''"
        "''Hello''"]
    keyword_argument_count [where ?'p = "string list",
      of "[] :: (string \<times> string) list" FTSRankDictionay None "''search''" "''Hello''"]
  by simp

text \<open>
  The wording of C4 without the amendment fails at
  \<^verbatim>\<open>FTSRankDictionay(search='Hello world')\<close>: exactly one keyword argument, and the
  construction does not succeed.
\<close>

theorem one_keyword_counterexample:
  "(construct FTSRankDictionay None [(''search'', ''Hello world'')]
     :: error + (string, string list) aggregate) = Inl ValueError"
  by (simp add: FTSRankDictionay_init_def)

text \<open>
  C9. For both dictionary-aware constructors a lookup path of one segment (a keyword name
  without the separator, which the split leaves whole) makes the construction fail with the
  \<^verbatim>\<open>ValueError\<close> of the sequence unpacking, not with the \<^verbatim>\<open>AssertionError\<close> raised
  for a wrong number of arguments.
\<close>

theorem one_segment_unpacking_error:
  assumes "\<not> contains_LOOKUP_SEP path"
  shows "split_LOOKUP_SEP [] path = [path] \<and>
         (construct FTSRankDictionay n [(path, term)] :: error + ('v, 'p) aggregate)
           = Inl ValueError \<and>
         (construct FTSRankCdDictionary n [(path, term)] :: error + ('v, 'p) aggregate)
           = Inl ValueError \<and>
         (construct FTSRankDictionay n [(path, term)] :: error + ('v, 'p) aggregate)
           \<noteq> Inl AssertionError \<and>
         (construct FTSRankCdDictionary n [(path, term)] :: error + ('v, 'p) aggregate)
           \<noteq> Inl AssertionError"
  using split_without_sep [OF assms, of "[]"]
  by (simp add: FTSRankDictionay_init_short [OF assms])

theorem one_segment_unpacking_error_witness:
  "\<not> contains_LOOKUP_SEP ''search'' \<and>
   split_LOOKUP_SEP [] ''search'' = [''search''] \<and>
   (construct FTSRankDictionay (Some [PyInt 1]) [(''search'', ''Hello world'')]
      :: error + (string, string list) aggregate) = Inl ValueError \<and>
   (construct FTSRankCdDictionary None [(''search'', ''Hello world'')]
      :: error + (string, string list) aggregate) = Inl ValueError"
proof -
  have h: "\<not> contains_LOOKUP_SEP ''search''" by simp
  show ?thesis
    using h
      one_segment_unpacking_error [OF h, where ?'p = "string list",
        of "Some [PyInt 1]" "''Hello world''"]
      one_segment_unpacking_error [OF h, where ?'p = "string list", of None "''Hello world''"]
    by simp
qed

section \<open>Attachment\<close>

lemma add_to_query_success:
  assumes "add_to_query self query alias col source = (Inr (), self', query')"
  shows "\<exists>lookup_sql fts_query params where_sql.
           get_lookup source (srt_lookup self) = Inr lookup_sql \<and>
           py_format lookup_sql [quoted_col col, resolved_dictionary self source, ''%s'']
             = Inr fts_query \<and>
           db_prep_lookup source (srt_lookup self) (rhs self) = Inr params \<and>
           py_format fts_query [''%s''] = Inr where_sql \<and>
           self' = self\<lparr>dictionary := resolved_dictionary self source,
                        extra := Attached \<lparr> kw_params = params,
                                   kw_dictionary = resolved_dictionary self source,
                                   kw_normalization_arr = normalization self \<rparr>\<rparr> \<and>
           query' = query\<lparr>where_nodes := where_nodes query @ [([where_sql], [params])],
                    aggregates := AList.update alias
                       (AggregateRegister_init col (Some source) (sql_function (cls self))
                          \<lparr> kw_params = params,
                            kw_dictionary = resolved_dictionary self source,
                            kw_normalization_arr = normalization self \<rparr>) (aggregates query),
                    group_by := (if col \<in> set (group_by query) then group_by query
                                 else group_by query @ [col])\<rparr>"
  using assms
  by (auto simp: add_to_query_def resolved_dictionary_def Let_def add_extra_def
      split: sum.splits if_splits)

lemma add_to_query_frame:
  assumes "add_to_query self query alias col source = (r, self', query')"
  shows "cls self' = cls self \<and> lookup self' = lookup self \<and> rhs self' = rhs self \<and>
         srt_lookup self' = srt_lookup self \<and> normalization self' = normalization self"
  using assms
  by (auto simp: add_to_query_def Let_def split: sum.splits if_splits)

lemma add_to_query_rejected:
  assumes "dictionary self \<noteq> []"
    and "get_transform source (dictionary self) = Inl e"
  shows "add_to_query self query alias col source = (Inl e, self, query)"
  using assms by (simp add: add_to_query_def)

lemma add_to_query_failure:
  assumes "add_to_query self query alias col source = (Inl e, self', query')"
  shows "query' = query"
  using assms
  by (auto simp: add_to_query_def Let_def split: sum.splits if_splits)

lemma add_to_query_inferred:
  assumes "dictionary self = []"
    and "add_to_query self query alias col source = (r, self', query')"
  shows "dictionary self' = default_dictionary source"
  using assms
  by (auto simp: add_to_query_def Let_def split: sum.splits if_splits)

lemma add_to_query_keeps_dictionary:
  assumes "dictionary self \<noteq> []"
    and "add_to_query self query alias col source = (r, self', query')"
  shows "dictionary self' = dictionary self"
  using assms
  by (auto simp: add_to_query_def Let_def split: sum.splits if_splits)

lemma add_to_query_ignores_normalization:
  "fst (add_to_query (self\<lparr>normalization := ns\<rparr>) query alias col source) =
   fst (add_to_query self query alias col source)"
  by (auto simp: add_to_query_def Let_def split: sum.splits if_splits)

lemma add_to_query_registers:
  assumes "add_to_query self query alias col source = (Inr (), self', query')"
  shows "\<exists>aggregate. map_of (aggregates query') alias = Some aggregate \<and>
           kw_dictionary (reg_extra aggregate) = resolved_dictionary self source \<and>
           reg_normalization aggregate = normalization self \<and>
           reg_sql_function aggregate = sql_function (cls self) \<and>
           reg_col aggregate = col"
proof -
  from add_to_query_success [OF assms] obtain params where
    "aggregates query' = AList.update alias
        (AggregateRegister_init col (Some source) (sql_function (cls self))
           \<lparr> kw_params = params, kw_dictionary = resolved_dictionary self source,
             kw_normalization_arr = normalization self \<rparr>) (aggregates query)"
    by auto
  then show ?thesis
    by (simp add: update_conv' AggregateRegister_init_def)
qed

lemma count_list_snoc: "count_list (xs @ [x]) y = count_list xs y + (if x = y then 1 else 0)"
  by (induction xs) simp_all

subsection \<open>The worked example, evaluated\<close>

lemma example_source_simps:
  "get_transform example_source key =
     (if key = ''english'' \<or> key = ''portuguese'' then Inr () else Inl ConfigurationError)"
  "get_lookup example_source key =
     (if key = ''search'' then Inr ''%s @@ to_tsquery('%s', %s)'' else Inl KeyError)"
  "db_prep_lookup example_source lookup_type v = Inr [v]"
  "default_dictionary example_source = ''english''"
  by (simp_all add: example_source_def)

lemma portuguese_source_simps:
  "get_transform portuguese_source key =
     (if key = ''portuguese'' then Inr () else Inl ConfigurationError)"
  "get_lookup portuguese_source key =
     (if key = ''search'' then Inr ''%s @@ to_tsquery('%s', %s)'' else Inl KeyError)"
  "db_prep_lookup portuguese_source lookup_type v = Inr [v]"
  "default_dictionary portuguese_source = ''portuguese''"
  by (simp_all add: portuguese_source_def)

lemma relabelled_source_simps:
  "get_transform relabelled_source key =
     (if key = ''english'' \<or> key = ''portuguese'' then Inr () else Inl ConfigurationError)"
  "get_lookup relabelled_source key =
     (if key = ''search'' then Inr ''%s @@ to_tsquery('%s', %s)'' else Inl KeyError)"
  "db_prep_lookup relabelled_source lookup_type v = Inr [v]"
  "default_dictionary relabelled_source = ''portuguese''"
  by (simp_all add: relabelled_source_def example_source_def)

lemmas example_defs =
  example_rank_def example_query_def example_col_def example_extra_def example_where_def
  example_rank_attached_def example_query_attached_def

lemmas run_defs =
  add_to_query_def py_format_def quoted_col_def str_join_def add_extra_def Let_def

lemma example_attached_once:
  "add_to_query example_rank example_query ''rank'' example_col example_source =
     (Inr (), example_rank_attached, example_query_attached)"
  by (simp add: run_defs example_defs example_source_simps)

lemma example_attached_twice:
  "add_to_query example_rank_attached example_query_attached ''rank'' example_col example_source =
     (Inr (), example_rank_attached,
      example_query_attached\<lparr>where_nodes := [example_where, example_where]\<rparr>)"
  by (simp add: run_defs example_defs example_source_simps)

subsection \<open>Validation comes first\<close>

text \<open>
  C3. When an aggregate with an explicit dictionary name (a dictionary-aware variant whose
  path names one) is attached and the resolver's \<^verbatim>\<open>get_transform\<close> rejects the name
  with a configuration error, the attachment fails with that error and nothing is mutated:
  the query that is left is the query that was given, with no WHERE fragment added, no
  expression registered under the alias and the GROUP BY list unchanged, and the aggregate
  is unchanged too. Attachment is all or nothing: whatever the aggregate and whatever the
  error, a failed attachment leaves the query as it was given.
\<close>

theorem unknown_dictionary_leaves_query:
  "(dictionary self \<noteq> [] \<and> get_transform source (dictionary self) = Inl ConfigurationError
      \<longrightarrow> add_to_query self query alias col source = (Inl ConfigurationError, self, query)) \<and>
   (fst (add_to_query self query alias col source) = Inl e
      \<longrightarrow> snd (snd (add_to_query self query alias col source)) = query)"
proof (intro conjI impI)
  assume "dictionary self \<noteq> [] \<and> get_transform source (dictionary self) = Inl ConfigurationError"
  then show "add_to_query self query alias col source = (Inl ConfigurationError, self, query)"
    by (simp add: add_to_query_rejected)
next
  assume "fst (add_to_query self query alias col source) = Inl e"
  then have "add_to_query self query alias col source =
      (Inl e, fst (snd (add_to_query self query alias col source)),
       snd (snd (add_to_query self query alias col source)))"
    by (metis prod.collapse)
  then show "snd (snd (add_to_query self query alias col source)) = query"
    by (rule add_to_query_failure)
qed

theorem unknown_dictionary_leaves_query_witness:
  "(construct FTSRankDictionay None [(''body__klingon__search'', ''Hello world'')]
      :: error + (string, string list) aggregate) = Inr example_rank_klingon \<and>
   dictionary example_rank_klingon \<noteq> [] \<and>
   get_transform example_source (dictionary example_rank_klingon) = Inl ConfigurationError \<and>
   add_to_query example_rank_klingon example_query ''rank'' example_col example_source =
     (Inl ConfigurationError, example_rank_klingon, example_query)"
proof -
  have c: "(construct FTSRankDictionay None [(''body__klingon__search'', ''Hello world'')]
      :: error + (string, string list) aggregate) = Inr example_rank_klingon"
    by (simp add: FTSRankDictionay_init_def example_rank_klingon_def str_join_def)
  have h1: "dictionary example_rank_klingon \<noteq> []"
    by (simp add: example_rank_klingon_def)
  have h2: "get_transform example_source (dictionary example_rank_klingon) = Inl ConfigurationError"
    by (simp add: example_rank_klingon_def example_source_simps)
  from unknown_dictionary_leaves_query [of example_rank_klingon example_source example_query
      "''rank''" example_col ConfigurationError] h1 h2
  have "add_to_query example_rank_klingon example_query ''rank'' example_col example_source =
     (Inl ConfigurationError, example_rank_klingon, example_query)"
    by blast
  with c h1 h2 show ?thesis by simp
qed

subsection \<open>The inferred dictionary\<close>

text \<open>
  C6. When an aggregate with an empty dictionary field (\<^verbatim>\<open>FTSRank\<close>, \<^verbatim>\<open>FTSRankCd\<close>)
  is attached with success to a column whose resolver has the default dictionary \<open>d\<close>,
  the WHERE fragment that is added is the lookup's template filled with the quoted column
  and \<open>d\<close>, and the expression registered under the alias carries \<open>d\<close> and renders
  \<^verbatim>\<open>to_tsquery('d', %s)\<close>.
\<close>

theorem default_dictionary_used:
  assumes "dictionary self = []"
    and "add_to_query self query alias col source = (Inr (), self', query')"
  shows "\<exists>lookup_sql fts_query where_sql params aggregate.
           get_lookup source (srt_lookup self) = Inr lookup_sql \<and>
           py_format lookup_sql [quoted_col col, default_dictionary source, ''%s'']
             = Inr fts_query \<and>
           py_format fts_query [''%s''] = Inr where_sql \<and>
           where_nodes query' = where_nodes query @ [([where_sql], [params])] \<and>
           map_of (aggregates query') alias = Some aggregate \<and>
           kw_dictionary (reg_extra aggregate) = default_dictionary source \<and>
           (\<forall>suffix qn. normalization_params (normalization self) = Inr suffix \<longrightarrow>
              as_sql aggregate qn =
                Inr (rank_call (sql_function (cls self)) (separated ''.'' (map qn col))
                       (default_dictionary source) suffix, [params]))"
proof -
  have d: "resolved_dictionary self source = default_dictionary source"
    using assms(1) by (simp add: resolved_dictionary_def)
  from add_to_query_success [OF assms(2)] obtain lookup_sql fts_query params where_sql where
    l: "get_lookup source (srt_lookup self) = Inr lookup_sql" and
    f: "py_format lookup_sql [quoted_col col, default_dictionary source, ''%s''] = Inr fts_query" and
    w: "py_format fts_query [''%s''] = Inr where_sql" and
    q: "query' = query\<lparr>where_nodes := where_nodes query @ [([where_sql], [params])],
                    aggregates := AList.update alias
                       (AggregateRegister_init col (Some source) (sql_function (cls self))
                          \<lparr> kw_params = params,
                            kw_dictionary = default_dictionary source,
                            kw_normalization_arr = normalization self \<rparr>) (aggregates query),
                    group_by := (if col \<in> set (group_by query) then group_by query
                                 else group_by query @ [col])\<rparr>"
    unfolding d by blast
  let ?a = "AggregateRegister_init col (Some source) (sql_function (cls self))
                          \<lparr> kw_params = params,
                            kw_dictionary = default_dictionary source,
                            kw_normalization_arr = normalization self \<rparr>"
  have m: "map_of (aggregates query') alias = Some ?a"
    by (simp add: q update_conv')
  have k: "kw_dictionary (reg_extra ?a) = default_dictionary source"
    by (simp add: AggregateRegister_init_def)
  have r: "\<forall>suffix qn. normalization_params (normalization self) = Inr suffix \<longrightarrow>
              as_sql ?a qn =
                Inr (rank_call (sql_function (cls self)) (separated ''.'' (map qn col))
                       (default_dictionary source) suffix, [params])"
    by (intro allI impI) (rule registered_expression)
  have n: "where_nodes query' = where_nodes query @ [([where_sql], [params])]"
    by (simp add: q)
  from l f w n m k r show ?thesis by blast
qed

theorem default_dictionary_used_witness:
  "dictionary example_rank = [] \<and>
   default_dictionary example_source = ''english'' \<and>
   add_to_query example_rank example_query ''rank'' example_col example_source =
     (Inr (), example_rank_attached, example_query_attached) \<and>
   where_nodes example_query_attached =
     [([[CHR 0x22] @ ''article'' @ [CHR 0x22] @ ''.'' @ [CHR 0x22] @ ''body'' @ [CHR 0x22]
          @ '' @@ to_tsquery('english', %s)''], [[''Hello world'']])] \<and>
   (\<exists>lookup_sql fts_query where_sql params aggregate.
           get_lookup example_source (srt_lookup example_rank) = Inr lookup_sql \<and>
           py_format lookup_sql [quoted_col example_col, default_dictionary example_source, ''%s'']
             = Inr fts_query \<and>
           py_format fts_query [''%s''] = Inr where_sql \<and>
           where_nodes example_query_attached
             = where_nodes example_query @ [([where_sql], [params])] \<and>
           map_of (aggregates example_query_attached) ''rank'' = Some aggregate \<and>
           kw_dictionary (reg_extra aggregate) = default_dictionary example_source \<and>
           (\<forall>suffix qn. normalization_params (normalization example_rank) = Inr suffix \<longrightarrow>
              as_sql aggregate qn =
                Inr (rank_call (sql_function (cls example_rank))
                       (separated ''.'' (map qn example_col))
                       (default_dictionary example_source) suffix, [params])))"
proof -
  have h1: "dictionary example_rank = []"
    by (simp add: example_rank_def)
  have h2: "add_to_query example_rank example_query ''rank'' example_col example_source =
     (Inr (), example_rank_attached, example_query_attached)"
    by (rule example_attached_once)
  show ?thesis
    using h1 h2 default_dictionary_used [OF h1 h2]
    by (simp add: example_source_simps example_query_attached_def example_where_def)
qed

subsection \<open>Grouping and reattachment\<close>

text \<open>
  C7. When two aggregates (of any variants, with any resolvers and aliases) are attached
  one after the other for the same resolved column, the second attachment leaves the
  GROUP BY list as the first one left it, and the first appends the column only when it is
  absent. So a query that did not hold the column more than once before holds it exactly
  once after both.
\<close>

theorem group_by_added_once:
  assumes "add_to_query self1 query alias1 col source1 = (Inr (), self1', query1)"
    and "add_to_query self2 query1 alias2 col source2 = (Inr (), self2', query2)"
  shows "group_by query2 = group_by query1 \<and>
         group_by query1 = (if col \<in> set (group_by query) then group_by query
                            else group_by query @ [col]) \<and>
         (count_list (group_by query) col \<le> 1 \<longrightarrow> count_list (group_by query2) col = 1)"
proof -
  have g1: "group_by query1 = (if col \<in> set (group_by query) then group_by query
                                else group_by query @ [col])"
    using add_to_query_success [OF assms(1)] by auto
  have g2: "group_by query2 = (if col \<in> set (group_by query1) then group_by query1
                                else group_by query1 @ [col])"
    using add_to_query_success [OF assms(2)] by auto
  have present: "col \<in> set (group_by query1)"
    by (simp add: g1)
  have same: "group_by query2 = group_by query1"
    using g2 present by simp
  have once: "count_list (group_by query1) col = 1" if "count_list (group_by query) col \<le> 1"
  proof (cases "col \<in> set (group_by query)")
    case True
    then have "count_list (group_by query) col \<noteq> 0"
      by (simp add: count_list_0_iff)
    with that True show ?thesis by (simp add: g1)
  next
    case False
    then have "count_list (group_by query) col = 0"
      by (simp add: count_list_0_iff)
    with False show ?thesis by (simp add: g1 count_list_snoc)
  qed
  from same g1 once show ?thesis by simp
qed

theorem group_by_added_once_witness:
  "count_list (group_by example_query) example_col \<le> 1 \<and>
   add_to_query example_rank example_query ''rank'' example_col example_source =
     (Inr (), example_rank_attached, example_query_attached) \<and>
   fst (add_to_query example_rank_pt example_query_attached ''rank_pt'' example_col example_source)
     = Inr () \<and>
   count_list (group_by (snd (snd (add_to_query example_rank_pt example_query_attached ''rank_pt''
      example_col example_source)))) example_col = 1 \<and>
   group_by (snd (snd (add_to_query example_rank_pt example_query_attached ''rank_pt''
      example_col example_source))) = [[''article'', ''id''], [''article'', ''body'']]"
proof -
  let ?second = "add_to_query example_rank_pt example_query_attached ''rank_pt'' example_col
                   example_source"
  have h3: "count_list (group_by example_query) example_col \<le> 1"
    by (simp add: example_defs)
  have h1: "add_to_query example_rank example_query ''rank'' example_col example_source =
     (Inr (), example_rank_attached, example_query_attached)"
    by (rule example_attached_once)
  have ok: "fst ?second = Inr ()"
    by (simp add: run_defs example_defs example_rank_pt_def example_source_simps)
  then have h2: "?second = (Inr (), fst (snd ?second), snd (snd ?second))"
    by (metis prod.collapse)
  note both = group_by_added_once [OF h1 h2]
  from both have same: "group_by (snd (snd ?second)) = group_by example_query_attached"
    by blast
  from both h3 have once: "count_list (group_by (snd (snd ?second))) example_col = 1"
    by blast
  have g: "group_by example_query_attached = [[''article'', ''id''], [''article'', ''body'']]"
    by (simp add: example_query_attached_def example_col_def)
  from h3 h1 ok once same [unfolded g] show ?thesis
    by blast
qed

text \<open>
  C8, as amended. Attachment is not idempotent: when the aggregate that an attachment has
  left is attached again to the query that it has left, with the same alias, column and
  resolver, and both attachments succeed, the same WHERE fragment with the same parameters
  is added a second time, so the query holds two copies of it. The GROUP BY list is not
  extended again: the column is appended by the first attachment only, and only when it was
  absent. The expression under the alias is overwritten by an equal one and the aggregate
  stays as the first attachment left it.
\<close>

theorem reattachment_duplicates_where_only:
  assumes "add_to_query self query alias col source = (Inr (), self1, query1)"
    and "add_to_query self1 query1 alias col source = (Inr (), self2, query2)"
  shows "\<exists>node. where_nodes query1 = where_nodes query @ [node] \<and>
           where_nodes query2 = where_nodes query @ [node, node] \<and>
           group_by query1 = (if col \<in> set (group_by query) then group_by query
                              else group_by query @ [col]) \<and>
           group_by query2 = group_by query1 \<and>
           aggregates query2 = aggregates query1 \<and>
           self2 = self1"
proof -
  let ?d = "resolved_dictionary self source"
  from add_to_query_success [OF assms(1)] obtain lookup_sql fts_query params where_sql where
    l: "get_lookup source (srt_lookup self) = Inr lookup_sql" and
    f: "py_format lookup_sql [quoted_col col, ?d, ''%s''] = Inr fts_query" and
    p: "db_prep_lookup source (srt_lookup self) (rhs self) = Inr params" and
    w: "py_format fts_query [''%s''] = Inr where_sql" and
    s1: "self1 = self\<lparr>dictionary := ?d,
                        extra := Attached \<lparr> kw_params = params, kw_dictionary = ?d,
                                   kw_normalization_arr = normalization self \<rparr>\<rparr>" and
    q1: "query1 = query\<lparr>where_nodes := where_nodes query @ [([where_sql], [params])],
                    aggregates := AList.update alias
                       (AggregateRegister_init col (Some source) (sql_function (cls self))
                          \<lparr> kw_params = params, kw_dictionary = ?d,
                            kw_normalization_arr = normalization self \<rparr>) (aggregates query),
                    group_by := (if col \<in> set (group_by query) then group_by query
                                 else group_by query @ [col])\<rparr>"
    by blast
  have d1: "resolved_dictionary self1 source = ?d"
    by (simp add: s1 resolved_dictionary_def)
  have fields: "srt_lookup self1 = srt_lookup self" "rhs self1 = rhs self"
    "normalization self1 = normalization self" "cls self1 = cls self"
    by (simp_all add: s1)
  from add_to_query_success [OF assms(2)] obtain lookup_sql' fts_query' params' where_sql' where
    l': "get_lookup source (srt_lookup self) = Inr lookup_sql'" and
    f': "py_format lookup_sql' [quoted_col col, ?d, ''%s''] = Inr fts_query'" and
    p': "db_prep_lookup source (srt_lookup self) (rhs self) = Inr params'" and
    w': "py_format fts_query' [''%s''] = Inr where_sql'" and
    s2: "self2 = self1\<lparr>dictionary := ?d,
                        extra := Attached \<lparr> kw_params = params', kw_dictionary = ?d,
                                   kw_normalization_arr = normalization self \<rparr>\<rparr>" and
    q2: "query2 = query1\<lparr>where_nodes := where_nodes query1 @ [([where_sql'], [params'])],
                    aggregates := AList.update alias
                       (AggregateRegister_init col (Some source) (sql_function (cls self))
                          \<lparr> kw_params = params', kw_dictionary = ?d,
                            kw_normalization_arr = normalization self \<rparr>) (aggregates query1),
                    group_by := (if col \<in> set (group_by query1) then group_by query1
                                 else group_by query1 @ [col])\<rparr>"
    unfolding d1 fields by blast
  have same: "lookup_sql' = lookup_sql" "params' = params"
    using l l' p p' by simp_all
  then have same_sql: "where_sql' = where_sql"
    using f f' w w' by simp
  have w1: "where_nodes query1 = where_nodes query @ [([where_sql], [params])]"
    by (simp add: q1)
  have w2: "where_nodes query2 =
              where_nodes query @ [([where_sql], [params]), ([where_sql], [params])]"
    by (simp add: q2 q1 same same_sql)
  have g1: "group_by query1 = (if col \<in> set (group_by query) then group_by query
                              else group_by query @ [col])"
    by (simp add: q1)
  have g2: "group_by query2 = group_by query1"
    by (simp add: q2 g1)
  have a2: "aggregates query2 = aggregates query1"
    by (simp add: q2 q1 same)
  have s: "self2 = self1"
    by (simp add: s2 s1 same)
  from w1 w2 g1 g2 a2 s show ?thesis by blast
qed

theorem reattachment_duplicates_where_only_witness:
  "add_to_query example_rank example_query ''rank'' example_col example_source =
     (Inr (), example_rank_attached, example_query_attached) \<and>
   add_to_query example_rank_attached example_query_attached ''rank'' example_col example_source =
     (Inr (), example_rank_attached,
      example_query_attached\<lparr>where_nodes := [example_where, example_where]\<rparr>) \<and>
   (\<exists>node. where_nodes example_query_attached = where_nodes example_query @ [node] \<and>
      where_nodes (example_query_attached\<lparr>where_nodes := [example_where, example_where]\<rparr>) =
        where_nodes example_query @ [node, node] \<and>
      group_by example_query_attached =
        (if example_col \<in> set (group_by example_query) then group_by example_query
         else group_by example_query @ [example_col]) \<and>
      group_by (example_query_attached\<lparr>where_nodes := [example_where, example_where]\<rparr>) =
        group_by example_query_attached \<and>
      aggregates (example_query_attached\<lparr>where_nodes := [example_where, example_where]\<rparr>) =
        aggregates example_query_attached)"
proof -
  note h1 = example_attached_once
  note h2 = example_attached_twice
  show ?thesis
    using h1 h2 reattachment_duplicates_where_only [OF h1 h2]
    by simp
qed

text \<open>
  The wording of C8 without the amendment fails on the worked example: after the second
  attachment the WHERE list holds the fragment twice, and the GROUP BY list holds the
  resolved column once, not twice.
\<close>

theorem reattachment_counterexample:
  "add_to_query example_rank example_query ''rank'' example_col example_source =
     (Inr (), example_rank_attached, example_query_attached) \<and>
   add_to_query example_rank_attached example_query_attached ''rank'' example_col example_source =
     (Inr (), example_rank_attached,
      example_query_attached\<lparr>where_nodes := [example_where, example_where]\<rparr>) \<and>
   group_by (example_query_attached\<lparr>where_nodes := [example_where, example_where]\<rparr>) =
     [[''article'', ''id''], example_col] \<and>
   count_list (group_by (example_query_attached\<lparr>where_nodes := [example_where, example_where]\<rparr>))
     example_col \<noteq> 2"
  by (simp add: run_defs example_defs example_source_simps)

subsection \<open>The aggregate is mutated\<close>

text \<open>
  C10. Attaching an aggregate with an empty dictionary field assigns the resolver's
  default dictionary to the field, whether or not the attachment succeeds afterwards, and
  leaves \<^verbatim>\<open>lookup\<close>, \<^verbatim>\<open>rhs\<close>, \<^verbatim>\<open>srt_lookup\<close> and \<^verbatim>\<open>normalization\<close> as
  they were. When that default is a name (not the empty string), a second attachment of
  the same object, to any query and against any resolver, takes the validation branch: it
  keeps the first dictionary, fails without mutation when the second resolver rejects that
  name, and on success registers an expression with the first dictionary, whatever the
  default of the second resolver is.
\<close>

theorem attachment_fixes_inferred_dictionary:
  assumes "dictionary self = []"
    and "add_to_query self query alias col source1 = (r1, self1, query1)"
    and "add_to_query self1 query1' alias' col' source2 = (r2, self2, query2)"
  shows "dictionary self1 = default_dictionary source1 \<and>
         lookup self1 = lookup self \<and> rhs self1 = rhs self \<and>
         srt_lookup self1 = srt_lookup self \<and> normalization self1 = normalization self \<and>
         lookup self2 = lookup self \<and> rhs self2 = rhs self \<and>
         srt_lookup self2 = srt_lookup self \<and> normalization self2 = normalization self \<and>
         (default_dictionary source1 \<noteq> [] \<longrightarrow>
            dictionary self2 = default_dictionary source1 \<and>
            (get_transform source2 (default_dictionary source1) = Inl e \<longrightarrow>
               r2 = Inl e \<and> self2 = self1 \<and> query2 = query1') \<and>
            (r2 = Inr () \<longrightarrow>
               (\<exists>aggregate. map_of (aggregates query2) alias' = Some aggregate \<and>
                  kw_dictionary (reg_extra aggregate) = default_dictionary source1)))"
proof -
  have d1: "dictionary self1 = default_dictionary source1"
    using add_to_query_inferred [OF assms(1) assms(2)] .
  note f1 = add_to_query_frame [OF assms(2)]
  note f2 = add_to_query_frame [OF assms(3)]
  have second: "dictionary self2 = default_dictionary source1 \<and>
            (get_transform source2 (default_dictionary source1) = Inl e \<longrightarrow>
               r2 = Inl e \<and> self2 = self1 \<and> query2 = query1') \<and>
            (r2 = Inr () \<longrightarrow>
               (\<exists>aggregate. map_of (aggregates query2) alias' = Some aggregate \<and>
                  kw_dictionary (reg_extra aggregate) = default_dictionary source1))"
    if named: "default_dictionary source1 \<noteq> []"
  proof -
    have set: "dictionary self1 \<noteq> []"
      using named d1 by simp
    have d2: "dictionary self2 = default_dictionary source1"
      using add_to_query_keeps_dictionary [OF set assms(3)] d1 by simp
    have rej: "get_transform source2 (default_dictionary source1) = Inl e \<longrightarrow>
              r2 = Inl e \<and> self2 = self1 \<and> query2 = query1'"
    proof
      assume "get_transform source2 (default_dictionary source1) = Inl e"
      then have "get_transform source2 (dictionary self1) = Inl e" by (simp add: d1)
      from add_to_query_rejected [OF set this, of query1' alias' col'] assms(3)
      show "r2 = Inl e \<and> self2 = self1 \<and> query2 = query1'" by simp
    qed
    have ok: "r2 = Inr () \<longrightarrow>
              (\<exists>aggregate. map_of (aggregates query2) alias' = Some aggregate \<and>
                 kw_dictionary (reg_extra aggregate) = default_dictionary source1)"
    proof
      assume "r2 = Inr ()"
      with assms(3)
      have s: "add_to_query self1 query1' alias' col' source2 = (Inr (), self2, query2)"
        by simp
      have r: "resolved_dictionary self1 source2 = default_dictionary source1"
        using set d1 by (simp add: resolved_dictionary_def)
      from add_to_query_registers [OF s] r
      show "\<exists>aggregate. map_of (aggregates query2) alias' = Some aggregate \<and>
                 kw_dictionary (reg_extra aggregate) = default_dictionary source1"
        by auto
    qed
    from d2 rej ok show ?thesis by simp
  qed
  from d1 f1 f2 second show ?thesis by simp
qed

theorem attachment_fixes_inferred_dictionary_witness:
  "dictionary example_rank = [] \<and>
   default_dictionary example_source \<noteq> [] \<and>
   add_to_query example_rank example_query ''rank'' example_col example_source =
     (Inr (), example_rank_attached, example_query_attached) \<and>
   dictionary example_rank_attached = ''english'' \<and>
   default_dictionary portuguese_source = ''portuguese'' \<and>
   get_transform portuguese_source ''english'' = Inl ConfigurationError \<and>
   add_to_query example_rank_attached example_query ''rank'' example_col portuguese_source =
     (Inl ConfigurationError, example_rank_attached, example_query) \<and>
   default_dictionary relabelled_source = ''portuguese'' \<and>
   fst (add_to_query example_rank_attached example_query ''rank'' example_col relabelled_source)
     = Inr () \<and>
   dictionary (fst (snd (add_to_query example_rank_attached example_query ''rank'' example_col
     relabelled_source))) = ''english''"
proof -
  let ?third = "add_to_query example_rank_attached example_query ''rank'' example_col
                  relabelled_source"
  have h1: "dictionary example_rank = []"
    by (simp add: example_rank_def)
  have h2: "default_dictionary example_source \<noteq> []"
    by (simp add: example_source_simps)
  note h3 = example_attached_once
  have h4: "add_to_query example_rank_attached example_query ''rank'' example_col
              portuguese_source =
     (Inl ConfigurationError, example_rank_attached, example_query)"
    by (simp add: run_defs example_defs portuguese_source_simps)
  have ok: "fst ?third = Inr ()"
    by (simp add: run_defs example_defs relabelled_source_simps)
  then have h5: "?third = (Inr (), fst (snd ?third), snd (snd ?third))"
    by (metis prod.collapse)
  from attachment_fixes_inferred_dictionary [OF h1 h3 h4, of ConfigurationError]
  have first: "dictionary example_rank_attached = default_dictionary example_source"
    by blast
  from attachment_fixes_inferred_dictionary [OF h1 h3 h5, of ConfigurationError] h2
  have kept: "dictionary (fst (snd ?third)) = default_dictionary example_source"
    by blast
  have rejects: "get_transform portuguese_source ''english'' = Inl ConfigurationError"
    by (simp add: portuguese_source_simps)
  from h1 h2 h3 h4 ok first kept rejects show ?thesis
    by (simp add: example_source_simps portuguese_source_simps relabelled_source_simps)
qed

section \<open>The normalization list is never validated\<close>

text \<open>
  C5, as amended. Constructing a variant with a normalization list that holds an entry
  which is no small non-negative integer raises no error on that account. No constructor
  inspects the list: whether a construction fails, and with which error, does not depend on
  the list, and a successful construction stores the list exactly as it was given.
  Attachment does not inspect the list either: its outcome is the same for every list.
\<close>

theorem normalization_not_validated:
  "((construct v (Some ns) kwargs :: error + ('v, 'p) aggregate) = Inl e \<longleftrightarrow>
      (construct v None kwargs :: error + ('v, 'p) aggregate) = Inl e) \<and>
   (construct v (Some ns) kwargs = Inr (self :: ('v, 'p) aggregate) \<longrightarrow>
      normalization self = ns) \<and>
   fst (add_to_query (self'\<lparr>normalization := ns\<rparr>) query alias col source) =
     fst (add_to_query self' query alias col source)"
proof -
  have c: "(construct v (Some ns) kwargs :: error + ('v, 'p) aggregate) =
     map_sum id (\<lambda>self. self\<lparr>normalization := ns\<rparr>) (construct v None kwargs)"
    using construct_ignores_normalization [of v "Some ns" kwargs] by simp
  have a: "(construct v (Some ns) kwargs :: error + ('v, 'p) aggregate) = Inl e \<longleftrightarrow>
      (construct v None kwargs :: error + ('v, 'p) aggregate) = Inl e"
    unfolding c by (cases "construct v None kwargs :: error + ('v, 'p) aggregate") auto
  have b: "construct v (Some ns) kwargs = Inr self \<longrightarrow> normalization self = ns"
    unfolding c by (cases "construct v None kwargs :: error + ('v, 'p) aggregate") auto
  have f: "fst (add_to_query (self'\<lparr>normalization := ns\<rparr>) query alias col source) =
     fst (add_to_query self' query alias col source)"
    by (rule add_to_query_ignores_normalization)
  from a b f show ?thesis by blast
qed

theorem normalization_not_validated_witness:
  "(construct FTSRank (Some [PyStr ''high'', PyFloat 3 (- 1), PyInt (- 3)])
      [(''body__search'', ''Hello world'')] :: error + (string, string list) aggregate) =
     Inr (example_rank\<lparr>normalization := [PyStr ''high'', PyFloat 3 (- 1), PyInt (- 3)]\<rparr>) \<and>
   normalization (example_rank\<lparr>normalization := [PyStr ''high'', PyFloat 3 (- 1), PyInt (- 3)]\<rparr>)
     = [PyStr ''high'', PyFloat 3 (- 1), PyInt (- 3)] \<and>
   (construct FTSRank None [(''body__search'', ''Hello world'')]
      :: error + (string, string list) aggregate) \<noteq> Inl AssertionError \<and>
   fst (add_to_query (example_rank\<lparr>normalization := [PyStr ''high'', PyFloat 3 (- 1), PyInt (- 3)]\<rparr>)
          example_query ''rank'' example_col example_source) = Inr ()"
proof -
  let ?ns = "[PyStr ''high'', PyFloat 3 (- 1), PyInt (- 3)]"
  have c: "(construct FTSRank (Some ?ns) [(''body__search'', ''Hello world'')]
     :: error + (string, string list) aggregate) = Inr (example_rank\<lparr>normalization := ?ns\<rparr>)"
    by (simp add: FTSRank_init_def str_join_def example_rank_def)
  have a: "fst (add_to_query example_rank example_query ''rank'' example_col example_source)
             = Inr ()"
    by (simp add: example_attached_once)
  note t = normalization_not_validated [where ?'p = "string list" and ?'v = string,
        of FTSRank ?ns "[(''body__search'', ''Hello world'')]" AssertionError
          "example_rank\<lparr>normalization := ?ns\<rparr>" example_rank example_query
          "''rank''" example_col example_source]
  from t c have stored: "normalization (example_rank\<lparr>normalization := ?ns\<rparr>) = ?ns"
    by blast
  from t c have unasserted: "(construct FTSRank None [(''body__search'', ''Hello world'')]
      :: error + (string, string list) aggregate) \<noteq> Inl AssertionError"
    by auto
  from t a have attached:
    "fst (add_to_query (example_rank\<lparr>normalization := ?ns\<rparr>) example_query ''rank''
          example_col example_source) = Inr ()"
    by simp
  from c stored unasserted attached show ?thesis
    by blast
qed

text \<open>
  The wording of C5 without the amendment fails at
  \<^verbatim>\<open>FTSRank(body__search='Hello world', normalization=['high', None])\<close>: the
  construction raises nothing and returns the aggregate with the list stored as given.
\<close>

theorem normalization_counterexample:
  "(construct FTSRank (Some [PyStr ''high'', PyNone]) [(''body__search'', ''Hello world'')]
     :: error + (string, string list) aggregate) =
   Inr \<lparr> cls = FTSRank, lookup = ''body'',
         extra = Keywords [(''body__search'', ''Hello world'')], rhs = ''Hello world'',
         dictionary = [], srt_lookup = ''search'', normalization = [PyStr ''high'', PyNone] \<rparr>"
  by (simp add: FTSRank_init_def str_join_def)

end
